theory Spec2Isabelle
  imports Main
begin

section \<open>The platform as seen from native-camera2-jni.cpp\<close>

text \<open>
  Every camera object is an opaque pointer owned by the platform library. A pointer is
  modelled as \<open>handle option\<close>, where \<open>None\<close> is \<open>NULL\<close>.
\<close>

type_synonym handle = nat
type_synonym ptr = "handle option"
type_synonym jobject = nat
type_synonym camera_status_t = int

definition ACAMERA_OK :: camera_status_t where
  "ACAMERA_OK = 0"

text \<open>The request templates of \<open>NdkCameraDevice.h\<close>; the source only uses the first.\<close>

datatype ACameraDevice_request_template =
    TEMPLATE_PREVIEW
  | TEMPLATE_STILL_CAPTURE
  | TEMPLATE_RECORD
  | TEMPLATE_VIDEO_SNAPSHOT
  | TEMPLATE_ZERO_SHUTTER_LAG
  | TEMPLATE_MANUAL

text \<open>
  \<open>ACameraIdList\<close> is a counted array of identifiers: \<open>numCameras\<close> is the length of
  \<open>cameraIds\<close>.
\<close>

type_synonym ACameraIdList = "string list"

definition numCameras :: "ACameraIdList \<Rightarrow> int" where
  "numCameras l = int (length l)"

text \<open>
  A platform call that takes the address of a pointer either leaves the pointer as it
  was or stores a value (possibly \<open>NULL\<close>) into it.
\<close>

datatype out = Untouched | Stored ptr

fun out_param :: "out \<Rightarrow> ptr \<Rightarrow> ptr" where
  "out_param Untouched old = old"
| "out_param (Stored v) old = v"

text \<open>The four callbacks of the source; each of them only logs.\<close>

datatype callback =
    camera_device_on_disconnected
  | camera_device_on_error
  | capture_session_on_ready
  | capture_session_on_active

record ACameraDevice_StateCallbacks =
  onDisconnected :: "callback option"
  onError :: "callback option"

record ACameraCaptureSession_stateCallbacks =
  onReady :: "callback option"
  onActive :: "callback option"

text \<open>The log lines of the source, with the arguments they format.\<close>

datatype message =
    Failed_to_get_camera_id_list camera_status_t
  | No_camera_device_detected
  | Trying_to_open_Camera2 string int
  | Failed_to_get_camera_meta_data string
  | Failed_to_open_camera_device string
  | Failed_to_create_preview_capture_request string
  | Failed_to_close_CameraDevice
  | Close_Camera
  | Surface_is_prepared jobject

text \<open>
  What the code does to the outside world is the sequence of platform calls and log
  lines it issues, each with the arguments it passes.
\<close>

datatype event =
    LOGE message
  | LOGI message
  | ANativeWindow_fromSurface jobject
  | ACameraManager_create
  | ACameraManager_getCameraIdList ptr
  | ACameraManager_getCameraCharacteristics ptr string
  | ACameraManager_openCamera ptr string
  | ACameraDevice_createCaptureRequest ptr ACameraDevice_request_template
  | ACameraMetadata_free ptr
  | ACameraManager_deleteCameraIdList ACameraIdList
  | ACameraManager_delete ptr
  | ACameraOutputTarget_create ptr
  | ACaptureRequest_addTarget ptr ptr
  | ACaptureSessionOutput_create ptr
  | ACaptureSessionOutputContainer_create
  | ACaptureSessionOutputContainer_add ptr ptr
  | ACameraDevice_createCaptureSession ptr ptr
  | ACameraCaptureSession_setRepeatingRequest ptr int "ptr list"
  | ACaptureRequest_free ptr
  | ACameraOutputTarget_free ptr
  | ACameraDevice_close ptr
  | ACaptureSessionOutput_free ptr
  | ACaptureSessionOutputContainer_free ptr
  | ANativeWindow_release ptr

text \<open>
  The answers of the platform during one run of the start entry point: the value each
  call returns and what it stores through its out parameter. They are inputs of the
  model, so a theorem about every \<open>platform\<close> holds whatever the platform answers.
\<close>

record platform =
  ret_ANativeWindow_fromSurface :: ptr
  ret_ACameraManager_create :: ptr
  ret_getCameraIdList :: camera_status_t
  out_cameraIdList :: ACameraIdList
  ret_getCameraCharacteristics :: camera_status_t
  out_cameraMetadata :: out
  ret_openCamera :: camera_status_t
  out_cameraDevice :: out
  ret_createCaptureRequest :: camera_status_t
  out_captureRequest :: out
  out_cameraOutputTarget :: out
  out_sessionOutput :: out
  out_captureSessionOutputContainer :: out
  out_captureSession :: out

section \<open>The static variables\<close>

record statics =
  theNativeWindow :: ptr
  cameraDevice :: ptr
  captureRequest :: ptr
  cameraOutputTarget :: ptr
  sessionOutput :: ptr
  captureSessionOutputContainer :: ptr
  captureSession :: ptr
  deviceStateCallbacks :: ACameraDevice_StateCallbacks
  captureSessionStateCallbacks :: ACameraCaptureSession_stateCallbacks

text \<open>Static storage is zero-initialised: every pointer starts as \<open>NULL\<close>.\<close>

definition initial :: statics where
  "initial =
     \<lparr>theNativeWindow = None, cameraDevice = None, captureRequest = None,
      cameraOutputTarget = None, sessionOutput = None,
      captureSessionOutputContainer = None, captureSession = None,
      deviceStateCallbacks = \<lparr>onDisconnected = None, onError = None\<rparr>,
      captureSessionStateCallbacks = \<lparr>onReady = None, onActive = None\<rparr>\<rparr>"

section \<open>The functions of the source\<close>

text \<open>
  Each function takes the static variables and returns them updated, together with the
  events it issued, in order. None of them has an error result: the source has no
  \<open>throw\<close>, no \<open>abort\<close> and no \<open>assert\<close> call, and both entry points return \<open>void\<close>.
\<close>

definition openCamera ::
  "platform \<Rightarrow> ACameraDevice_request_template \<Rightarrow> statics \<Rightarrow> statics \<times> event list" where
  "openCamera p templateId s0 =
    (let cameraManager = ret_ACameraManager_create p;
         t0 = [ACameraManager_create, ACameraManager_getCameraIdList cameraManager];
         cameraIdList = out_cameraIdList p
     in
       if ret_getCameraIdList p \<noteq> ACAMERA_OK then
         (s0, t0 @ [LOGE (Failed_to_get_camera_id_list (ret_getCameraIdList p))])
       else if numCameras cameraIdList < 1 then
         (s0, t0 @ [LOGE No_camera_device_detected])
       else
         let selectedCameraId = cameraIdList ! 0;
             t1 = [LOGI (Trying_to_open_Camera2 selectedCameraId (numCameras cameraIdList)),
                   ACameraManager_getCameraCharacteristics cameraManager selectedCameraId];
             cameraMetadata = out_param (out_cameraMetadata p) None;
             t2 = (if ret_getCameraCharacteristics p \<noteq> ACAMERA_OK
                   then [LOGE (Failed_to_get_camera_meta_data selectedCameraId)] else []);
             s1 = s0\<lparr>deviceStateCallbacks :=
                       \<lparr>onDisconnected = Some camera_device_on_disconnected,
                        onError = Some camera_device_on_error\<rparr>\<rparr>;
             t3 = [ACameraManager_openCamera cameraManager selectedCameraId];
             s2 = s1\<lparr>cameraDevice := out_param (out_cameraDevice p) (cameraDevice s1)\<rparr>;
             t4 = (if ret_openCamera p \<noteq> ACAMERA_OK
                   then [LOGE (Failed_to_open_camera_device selectedCameraId)] else []);
             t5 = [ACameraDevice_createCaptureRequest (cameraDevice s2) templateId];
             s3 = s2\<lparr>captureRequest := out_param (out_captureRequest p) (captureRequest s2)\<rparr>;
             t6 = (if ret_createCaptureRequest p \<noteq> ACAMERA_OK
                   then [LOGE (Failed_to_create_preview_capture_request selectedCameraId)]
                   else []);
             t7 = [ACameraMetadata_free cameraMetadata,
                   ACameraManager_deleteCameraIdList cameraIdList,
                   ACameraManager_delete cameraManager]
         in (s3, t0 @ t1 @ t2 @ t3 @ t4 @ t5 @ t6 @ t7))"

text \<open>\<open>closeCamera\<close> reads one answer of the platform: the status of \<open>ACameraDevice_close\<close>.\<close>

definition closeCamera :: "camera_status_t \<Rightarrow> statics \<Rightarrow> statics \<times> event list" where
  "closeCamera ret_close s0 =
    (let (s1, t1) =
           (if captureRequest s0 \<noteq> None
            then (s0\<lparr>captureRequest := None\<rparr>, [ACaptureRequest_free (captureRequest s0)])
            else (s0, []));
         (s2, t2) =
           (if cameraOutputTarget s1 \<noteq> None
            then (s1\<lparr>cameraOutputTarget := None\<rparr>,
                  [ACameraOutputTarget_free (cameraOutputTarget s1)])
            else (s1, []));
         (s3, t3) =
           (if cameraDevice s2 \<noteq> None
            then (s2\<lparr>cameraDevice := None\<rparr>,
                  ACameraDevice_close (cameraDevice s2) #
                  (if ret_close \<noteq> ACAMERA_OK then [LOGE Failed_to_close_CameraDevice] else []))
            else (s2, []));
         (s4, t4) =
           (if sessionOutput s3 \<noteq> None
            then (s3\<lparr>sessionOutput := None\<rparr>, [ACaptureSessionOutput_free (sessionOutput s3)])
            else (s3, []));
         (s5, t5) =
           (if captureSessionOutputContainer s4 \<noteq> None
            then (s4\<lparr>captureSessionOutputContainer := None\<rparr>,
                  [ACaptureSessionOutputContainer_free (captureSessionOutputContainer s4)])
            else (s4, []))
     in (s5, t1 @ t2 @ t3 @ t4 @ t5 @ [LOGI Close_Camera]))"

definition Java_org_freedesktop_nativecamera2_NativeCamera2_startPreview ::
  "platform \<Rightarrow> jobject \<Rightarrow> statics \<Rightarrow> statics \<times> event list" where
  "Java_org_freedesktop_nativecamera2_NativeCamera2_startPreview p surface s0 =
    (let t1 = [ANativeWindow_fromSurface surface];
         s1 = s0\<lparr>theNativeWindow := ret_ANativeWindow_fromSurface p\<rparr>;
         (s2, t2) = openCamera p TEMPLATE_PREVIEW s1;
         t3 = [LOGI (Surface_is_prepared surface),
               ACameraOutputTarget_create (theNativeWindow s2)];
         s3 = s2\<lparr>cameraOutputTarget :=
                   out_param (out_cameraOutputTarget p) (cameraOutputTarget s2)\<rparr>;
         t4 = [ACaptureRequest_addTarget (captureRequest s3) (cameraOutputTarget s3),
               ACaptureSessionOutput_create (theNativeWindow s3)];
         s4 = s3\<lparr>sessionOutput := out_param (out_sessionOutput p) (sessionOutput s3)\<rparr>;
         t5 = [ACaptureSessionOutputContainer_create];
         s5 = s4\<lparr>captureSessionOutputContainer :=
                   out_param (out_captureSessionOutputContainer p)
                     (captureSessionOutputContainer s4)\<rparr>;
         t6 = [ACaptureSessionOutputContainer_add (captureSessionOutputContainer s5)
                 (sessionOutput s5)];
         s6 = s5\<lparr>captureSessionStateCallbacks :=
                   \<lparr>onReady = Some capture_session_on_ready,
                    onActive = Some capture_session_on_active\<rparr>\<rparr>;
         t7 = [ACameraDevice_createCaptureSession (cameraDevice s6)
                 (captureSessionOutputContainer s6)];
         s7 = s6\<lparr>captureSession := out_param (out_captureSession p) (captureSession s6)\<rparr>;
         t8 = [ACameraCaptureSession_setRepeatingRequest (captureSession s7) 1
                 [captureRequest s7]]
     in (s7, t1 @ t2 @ t3 @ t4 @ t5 @ t6 @ t7 @ t8))"

definition Java_org_freedesktop_nativecamera2_NativeCamera2_stopPreview ::
  "camera_status_t \<Rightarrow> statics \<Rightarrow> statics \<times> event list" where
  "Java_org_freedesktop_nativecamera2_NativeCamera2_stopPreview ret_close s0 =
    (let (s1, t1) = closeCamera ret_close s0;
         (s2, t2) =
           (if theNativeWindow s1 \<noteq> None
            then (s1\<lparr>theNativeWindow := None\<rparr>, [ANativeWindow_release (theNativeWindow s1)])
            else (s1, []))
     in (s2, t1 @ t2))"

abbreviation startPreview :: "platform \<Rightarrow> jobject \<Rightarrow> statics \<Rightarrow> statics \<times> event list" where
  "startPreview \<equiv> Java_org_freedesktop_nativecamera2_NativeCamera2_startPreview"

abbreviation stopPreview :: "camera_status_t \<Rightarrow> statics \<Rightarrow> statics \<times> event list" where
  "stopPreview \<equiv> Java_org_freedesktop_nativecamera2_NativeCamera2_stopPreview"

section \<open>Slots and release calls\<close>

text \<open>
  The seven static pointers by name, and the calls of the source that give a handle back
  to the platform, each with the slot the source applies it to. The source calls no
  release function on a capture session.
\<close>

datatype slot =
    TheNativeWindow | CameraDevice | CaptureRequest | CameraOutputTarget
  | SessionOutput | CaptureSessionOutputContainer | CaptureSession

fun slot_value :: "slot \<Rightarrow> statics \<Rightarrow> ptr" where
  "slot_value TheNativeWindow s = theNativeWindow s"
| "slot_value CameraDevice s = cameraDevice s"
| "slot_value CaptureRequest s = captureRequest s"
| "slot_value CameraOutputTarget s = cameraOutputTarget s"
| "slot_value SessionOutput s = sessionOutput s"
| "slot_value CaptureSessionOutputContainer s = captureSessionOutputContainer s"
| "slot_value CaptureSession s = captureSession s"

fun released :: "event \<Rightarrow> (slot \<times> ptr) option" where
  "released (ACaptureRequest_free a) = Some (CaptureRequest, a)"
| "released (ACameraOutputTarget_free a) = Some (CameraOutputTarget, a)"
| "released (ACameraDevice_close a) = Some (CameraDevice, a)"
| "released (ACaptureSessionOutput_free a) = Some (SessionOutput, a)"
| "released (ACaptureSessionOutputContainer_free a) = Some (CaptureSessionOutputContainer, a)"
| "released (ANativeWindow_release a) = Some (TheNativeWindow, a)"
| "released _ = None"

fun releases :: "event list \<Rightarrow> (slot \<times> ptr) list" where
  "releases [] = []"
| "releases (e # t) = (case released e of None \<Rightarrow> releases t | Some r \<Rightarrow> r # releases t)"

section \<open>Sequences of calls and example platforms\<close>

text \<open>
  The managed side calls the two entry points in any order. A start carries the
  platform's answers and the surface, a stop the status of the device close.
\<close>

datatype call = Start platform jobject | Stop camera_status_t

fun step :: "call \<Rightarrow> statics \<Rightarrow> statics \<times> event list" where
  "step (Start p surface) s = startPreview p surface s"
| "step (Stop ret_close) s = stopPreview ret_close s"

fun run :: "call list \<Rightarrow> statics \<Rightarrow> statics \<times> event list" where
  "run [] s = (s, [])"
| "run (c # cs) s =
     (let (s1, t1) = step c s; (s2, t2) = run cs s1 in (s2, t1 @ t2))"

text \<open>
  Two platforms for the scenarios of the specification: one camera with identifier
  \<open>0\<close> on which every call succeeds, and a platform that enumerates no camera
  (its window and output calls still succeed).
\<close>

definition one_camera :: platform where
  "one_camera =
     \<lparr>ret_ANativeWindow_fromSurface = Some 10, ret_ACameraManager_create = Some 11,
      ret_getCameraIdList = ACAMERA_OK, out_cameraIdList = [''0''],
      ret_getCameraCharacteristics = ACAMERA_OK, out_cameraMetadata = Stored (Some 12),
      ret_openCamera = ACAMERA_OK, out_cameraDevice = Stored (Some 13),
      ret_createCaptureRequest = ACAMERA_OK, out_captureRequest = Stored (Some 14),
      out_cameraOutputTarget = Stored (Some 15), out_sessionOutput = Stored (Some 16),
      out_captureSessionOutputContainer = Stored (Some 17),
      out_captureSession = Stored (Some 18)\<rparr>"

definition no_camera :: platform where
  "no_camera =
     \<lparr>ret_ANativeWindow_fromSurface = Some 10, ret_ACameraManager_create = Some 11,
      ret_getCameraIdList = ACAMERA_OK, out_cameraIdList = [],
      ret_getCameraCharacteristics = ACAMERA_OK, out_cameraMetadata = Untouched,
      ret_openCamera = ACAMERA_OK, out_cameraDevice = Untouched,
      ret_createCaptureRequest = ACAMERA_OK, out_captureRequest = Untouched,
      out_cameraOutputTarget = Stored (Some 15), out_sessionOutput = Stored (Some 16),
      out_captureSessionOutputContainer = Stored (Some 17),
      out_captureSession = Untouched\<rparr>"

text \<open>
  Three more platforms: a second session on the same camera with fresh handles, an
  enumeration that returns an error status, and a camera that is enumerated but cannot
  be opened (the open and the request creation return error statuses and store nothing).
\<close>

definition one_camera_again :: platform where
  "one_camera_again =
     \<lparr>ret_ANativeWindow_fromSurface = Some 20, ret_ACameraManager_create = Some 21,
      ret_getCameraIdList = ACAMERA_OK, out_cameraIdList = [''0''],
      ret_getCameraCharacteristics = ACAMERA_OK, out_cameraMetadata = Stored (Some 22),
      ret_openCamera = ACAMERA_OK, out_cameraDevice = Stored (Some 23),
      ret_createCaptureRequest = ACAMERA_OK, out_captureRequest = Stored (Some 24),
      out_cameraOutputTarget = Stored (Some 25), out_sessionOutput = Stored (Some 26),
      out_captureSessionOutputContainer = Stored (Some 27),
      out_captureSession = Stored (Some 28)\<rparr>"

definition enumeration_fails :: platform where
  "enumeration_fails =
     \<lparr>ret_ANativeWindow_fromSurface = Some 10, ret_ACameraManager_create = Some 11,
      ret_getCameraIdList = - 10006, out_cameraIdList = [],
      ret_getCameraCharacteristics = ACAMERA_OK, out_cameraMetadata = Untouched,
      ret_openCamera = ACAMERA_OK, out_cameraDevice = Untouched,
      ret_createCaptureRequest = ACAMERA_OK, out_captureRequest = Untouched,
      out_cameraOutputTarget = Stored (Some 15), out_sessionOutput = Stored (Some 16),
      out_captureSessionOutputContainer = Stored (Some 17),
      out_captureSession = Untouched\<rparr>"

definition open_fails :: platform where
  "open_fails =
     \<lparr>ret_ANativeWindow_fromSurface = Some 10, ret_ACameraManager_create = Some 11,
      ret_getCameraIdList = ACAMERA_OK, out_cameraIdList = [''0'', ''1''],
      ret_getCameraCharacteristics = ACAMERA_OK, out_cameraMetadata = Stored (Some 12),
      ret_openCamera = - 10009, out_cameraDevice = Untouched,
      ret_createCaptureRequest = - 10001, out_captureRequest = Untouched,
      out_cameraOutputTarget = Stored (Some 15), out_sessionOutput = Stored (Some 16),
      out_captureSessionOutputContainer = Stored (Some 17),
      out_captureSession = Untouched\<rparr>"

text \<open>
  A camera that opens while its characteristics and its capture request fail: the device
  handle is created, the request is not.
\<close>

definition request_fails :: platform where
  "request_fails =
     \<lparr>ret_ANativeWindow_fromSurface = Some 10, ret_ACameraManager_create = Some 11,
      ret_getCameraIdList = ACAMERA_OK, out_cameraIdList = [''0''],
      ret_getCameraCharacteristics = - 10004, out_cameraMetadata = Untouched,
      ret_openCamera = ACAMERA_OK, out_cameraDevice = Stored (Some 13),
      ret_createCaptureRequest = - 10000, out_captureRequest = Untouched,
      out_cameraOutputTarget = Stored (Some 15), out_sessionOutput = Stored (Some 16),
      out_captureSessionOutputContainer = Stored (Some 17),
      out_captureSession = Stored (Some 18)\<rparr>"

section \<open>Reading a trace\<close>

text \<open>The platform calls of a trace, without its log lines, and its error log lines.\<close>

fun is_log :: "event \<Rightarrow> bool" where
  "is_log (LOGE m) = True"
| "is_log (LOGI m) = True"
| "is_log e = False"

definition calls :: "event list \<Rightarrow> event list" where
  "calls t = filter (\<lambda>e. \<not> is_log e) t"

fun errors :: "event list \<Rightarrow> message list" where
  "errors [] = []"
| "errors (LOGE m # t) = m # errors t"
| "errors (e # t) = errors t"

definition all_slots :: "slot list" where
  "all_slots =
     [TheNativeWindow, CameraDevice, CaptureRequest, CameraOutputTarget, SessionOutput,
      CaptureSessionOutputContainer, CaptureSession]"

text \<open>
  The slots that held a handle in \<open>s\<close>, hold something else in \<open>s'\<close>, and whose handle
  no call of the trace \<open>t\<close> between the two released.
\<close>

definition overwritten_unreleased :: "statics \<Rightarrow> event list \<Rightarrow> statics \<Rightarrow> slot list" where
  "overwritten_unreleased s t s' =
     filter (\<lambda>sl. slot_value sl s \<noteq> None \<and> slot_value sl s' \<noteq> slot_value sl s \<and>
                  (sl, slot_value sl s) \<notin> set (releases t)) all_slots"

section \<open>References between handles\<close>

text \<open>
  The start entry point attaches one handle to another with its two add calls: the
  output target is added to the capture request (\<open>ACaptureRequest_addTarget\<close>) and the
  session output is added to the container (\<open>ACaptureSessionOutputContainer_add\<close>).
  After such a call the first handle refers to the second. The capture session, which
  the source hands to no release call, is not followed here.
\<close>

fun references_of :: "event \<Rightarrow> ((slot \<times> ptr) \<times> (slot \<times> ptr)) list" where
  "references_of (ACaptureRequest_addTarget r t) =
     [((CaptureRequest, r), (CameraOutputTarget, t))]"
| "references_of (ACaptureSessionOutputContainer_add c so) =
     [((CaptureSessionOutputContainer, c), (SessionOutput, so))]"
| "references_of e = []"

fun references :: "event list \<Rightarrow> ((slot \<times> ptr) \<times> (slot \<times> ptr)) list" where
  "references [] = []"
| "references (e # t) = references_of e @ references t"

text \<open>The handles held in the static variables: the slots that are not \<open>NULL\<close>.\<close>

definition held :: "statics \<Rightarrow> (slot \<times> ptr) list" where
  "held s = map (\<lambda>sl. (sl, slot_value sl s)) (filter (\<lambda>sl. slot_value sl s \<noteq> None) all_slots)"

text \<open>
  Walking along the releases of a teardown, in order: the references \<open>(h, x)\<close> whose
  target \<open>x\<close> is released while the referring handle \<open>h\<close> is still held. A released
  handle is no longer held for the releases after it.
\<close>

fun freed_while_referenced ::
  "((slot \<times> ptr) \<times> (slot \<times> ptr)) list \<Rightarrow> (slot \<times> ptr) list \<Rightarrow> (slot \<times> ptr) list \<Rightarrow>
   ((slot \<times> ptr) \<times> (slot \<times> ptr)) list" where
  "freed_while_referenced refs hs [] = []"
| "freed_while_referenced refs hs (x # xs) =
     filter (\<lambda>(h, y). y = x \<and> h \<noteq> x \<and> h \<in> set hs) refs @
     freed_while_referenced refs (removeAll x hs) xs"

section \<open>What the teardown functions compute\<close>

lemma releases_append: "releases (t @ u) = releases t @ releases u"
  by (induction t) (simp_all split: option.splits)

lemma closeCamera_statics:
  "fst (closeCamera r s) =
     s\<lparr>captureRequest := None, cameraOutputTarget := None, cameraDevice := None,
       sessionOutput := None, captureSessionOutputContainer := None\<rparr>"
  by (cases s) (simp add: closeCamera_def)

lemma closeCamera_events:
  "snd (closeCamera r s) =
     (if captureRequest s \<noteq> None then [ACaptureRequest_free (captureRequest s)] else []) @
     (if cameraOutputTarget s \<noteq> None then [ACameraOutputTarget_free (cameraOutputTarget s)] else []) @
     (if cameraDevice s \<noteq> None
      then ACameraDevice_close (cameraDevice s) #
           (if r \<noteq> ACAMERA_OK then [LOGE Failed_to_close_CameraDevice] else [])
      else []) @
     (if sessionOutput s \<noteq> None then [ACaptureSessionOutput_free (sessionOutput s)] else []) @
     (if captureSessionOutputContainer s \<noteq> None
      then [ACaptureSessionOutputContainer_free (captureSessionOutputContainer s)] else []) @
     [LOGI Close_Camera]"
  by (simp add: closeCamera_def)

lemma stopPreview_statics:
  "fst (stopPreview r s) =
     s\<lparr>captureRequest := None, cameraOutputTarget := None, cameraDevice := None,
       sessionOutput := None, captureSessionOutputContainer := None, theNativeWindow := None\<rparr>"
  by (cases s) (simp add: Java_org_freedesktop_nativecamera2_NativeCamera2_stopPreview_def closeCamera_def)

lemma stopPreview_events:
  "snd (stopPreview r s) =
     snd (closeCamera r s) @
     (if theNativeWindow s \<noteq> None then [ANativeWindow_release (theNativeWindow s)] else [])"
  by (simp add: Java_org_freedesktop_nativecamera2_NativeCamera2_stopPreview_def split_def closeCamera_statics)

lemma stopPreview_releases:
  "releases (snd (stopPreview r s)) =
     (if captureRequest s \<noteq> None then [(CaptureRequest, captureRequest s)] else []) @
     (if cameraOutputTarget s \<noteq> None then [(CameraOutputTarget, cameraOutputTarget s)] else []) @
     (if cameraDevice s \<noteq> None then [(CameraDevice, cameraDevice s)] else []) @
     (if sessionOutput s \<noteq> None then [(SessionOutput, sessionOutput s)] else []) @
     (if captureSessionOutputContainer s \<noteq> None
      then [(CaptureSessionOutputContainer, captureSessionOutputContainer s)] else []) @
     (if theNativeWindow s \<noteq> None then [(TheNativeWindow, theNativeWindow s)] else [])"
  by (simp add: stopPreview_events closeCamera_events releases_append)

lemma closeCamera_releases:
  "releases (snd (closeCamera r s)) =
     (if captureRequest s \<noteq> None then [(CaptureRequest, captureRequest s)] else []) @
     (if cameraOutputTarget s \<noteq> None then [(CameraOutputTarget, cameraOutputTarget s)] else []) @
     (if cameraDevice s \<noteq> None then [(CameraDevice, cameraDevice s)] else []) @
     (if sessionOutput s \<noteq> None then [(SessionOutput, sessionOutput s)] else []) @
     (if captureSessionOutputContainer s \<noteq> None
      then [(CaptureSessionOutputContainer, captureSessionOutputContainer s)] else [])"
  by (simp add: closeCamera_events releases_append)

lemma start_one_camera:
  "fst (startPreview one_camera 7 initial) = 
     \<lparr>theNativeWindow = Some 10, cameraDevice = Some 13, captureRequest = Some 14,
      cameraOutputTarget = Some 15, sessionOutput = Some 16,
      captureSessionOutputContainer = Some 17, captureSession = Some 18,
      deviceStateCallbacks = \<lparr>onDisconnected = Some camera_device_on_disconnected, onError = Some camera_device_on_error\<rparr>,
      captureSessionStateCallbacks = \<lparr>onReady = Some capture_session_on_ready, onActive = Some capture_session_on_active\<rparr>\<rparr>"
  by (simp add: Java_org_freedesktop_nativecamera2_NativeCamera2_startPreview_def openCamera_def
      one_camera_def initial_def numCameras_def ACAMERA_OK_def Let_def)

lemma start_no_camera:
  "fst (startPreview no_camera 7 initial) = 
     \<lparr>theNativeWindow = Some 10, cameraDevice = None, captureRequest = None,
      cameraOutputTarget = Some 15, sessionOutput = Some 16,
      captureSessionOutputContainer = Some 17, captureSession = None,
      deviceStateCallbacks = \<lparr>onDisconnected = None, onError = None\<rparr>,
      captureSessionStateCallbacks = \<lparr>onReady = Some capture_session_on_ready, onActive = Some capture_session_on_active\<rparr>\<rparr>"
  by (simp add: Java_org_freedesktop_nativecamera2_NativeCamera2_startPreview_def openCamera_def
      no_camera_def initial_def numCameras_def ACAMERA_OK_def Let_def)

section \<open>What the opening functions compute\<close>

lemma calls_append: "calls (t @ u) = calls t @ calls u"
  by (simp add: calls_def)

lemma errors_append: "errors (t @ u) = errors t @ errors u"
  by (induction t rule: errors.induct) simp_all

lemma openCamera_enumeration_failed:
  "ret_getCameraIdList p \<noteq> ACAMERA_OK \<Longrightarrow>
   openCamera p t s =
     (s, [ACameraManager_create, ACameraManager_getCameraIdList (ret_ACameraManager_create p),
          LOGE (Failed_to_get_camera_id_list (ret_getCameraIdList p))])"
  by (simp add: openCamera_def)

lemma openCamera_no_camera:
  "ret_getCameraIdList p = ACAMERA_OK \<Longrightarrow> numCameras (out_cameraIdList p) < 1 \<Longrightarrow>
   openCamera p t s =
     (s, [ACameraManager_create, ACameraManager_getCameraIdList (ret_ACameraManager_create p),
          LOGE No_camera_device_detected])"
  by (simp add: openCamera_def)

lemma openCamera_opened_statics:
  "ret_getCameraIdList p = ACAMERA_OK \<Longrightarrow> 1 \<le> numCameras (out_cameraIdList p) \<Longrightarrow>
   fst (openCamera p t s) =
     s\<lparr>deviceStateCallbacks :=
         \<lparr>onDisconnected = Some camera_device_on_disconnected,
          onError = Some camera_device_on_error\<rparr>,
       cameraDevice := out_param (out_cameraDevice p) (cameraDevice s),
       captureRequest := out_param (out_captureRequest p) (captureRequest s)\<rparr>"
  by (simp add: openCamera_def Let_def)

lemma openCamera_opened_events:
  "ret_getCameraIdList p = ACAMERA_OK \<Longrightarrow> 1 \<le> numCameras (out_cameraIdList p) \<Longrightarrow>
   snd (openCamera p t s) =
     [ACameraManager_create, ACameraManager_getCameraIdList (ret_ACameraManager_create p),
      LOGI (Trying_to_open_Camera2 (hd (out_cameraIdList p)) (numCameras (out_cameraIdList p))),
      ACameraManager_getCameraCharacteristics (ret_ACameraManager_create p)
        (hd (out_cameraIdList p))] @
     (if ret_getCameraCharacteristics p \<noteq> ACAMERA_OK
      then [LOGE (Failed_to_get_camera_meta_data (hd (out_cameraIdList p)))] else []) @
     [ACameraManager_openCamera (ret_ACameraManager_create p) (hd (out_cameraIdList p))] @
     (if ret_openCamera p \<noteq> ACAMERA_OK
      then [LOGE (Failed_to_open_camera_device (hd (out_cameraIdList p)))] else []) @
     [ACameraDevice_createCaptureRequest (out_param (out_cameraDevice p) (cameraDevice s)) t] @
     (if ret_createCaptureRequest p \<noteq> ACAMERA_OK
      then [LOGE (Failed_to_create_preview_capture_request (hd (out_cameraIdList p)))] else []) @
     [ACameraMetadata_free (out_param (out_cameraMetadata p) None),
      ACameraManager_deleteCameraIdList (out_cameraIdList p),
      ACameraManager_delete (ret_ACameraManager_create p)]"
  by (cases "out_cameraIdList p") (simp_all add: openCamera_def Let_def numCameras_def)

lemma openCamera_frame:
  "theNativeWindow (fst (openCamera p t s)) = theNativeWindow s"
  "cameraOutputTarget (fst (openCamera p t s)) = cameraOutputTarget s"
  "sessionOutput (fst (openCamera p t s)) = sessionOutput s"
  "captureSessionOutputContainer (fst (openCamera p t s)) = captureSessionOutputContainer s"
  "captureSession (fst (openCamera p t s)) = captureSession s"
  "captureSessionStateCallbacks (fst (openCamera p t s)) = captureSessionStateCallbacks s"
  by (simp_all add: openCamera_def Let_def)

lemma openCamera_releases: "releases (snd (openCamera p t s)) = []"
  by (simp add: openCamera_def Let_def)

lemma startPreview_statics:
  "fst (startPreview p surface s) =
     (fst (openCamera p TEMPLATE_PREVIEW (s\<lparr>theNativeWindow := ret_ANativeWindow_fromSurface p\<rparr>)))
       \<lparr>cameraOutputTarget := out_param (out_cameraOutputTarget p) (cameraOutputTarget s),
        sessionOutput := out_param (out_sessionOutput p) (sessionOutput s),
        captureSessionOutputContainer :=
          out_param (out_captureSessionOutputContainer p) (captureSessionOutputContainer s),
        captureSessionStateCallbacks :=
          \<lparr>onReady = Some capture_session_on_ready,
           onActive = Some capture_session_on_active\<rparr>,
        captureSession := out_param (out_captureSession p) (captureSession s)\<rparr>"
  by (simp add: Java_org_freedesktop_nativecamera2_NativeCamera2_startPreview_def split_def
      Let_def openCamera_frame)

lemma startPreview_events:
  "snd (startPreview p surface s) =
     ANativeWindow_fromSurface surface #
     snd (openCamera p TEMPLATE_PREVIEW (s\<lparr>theNativeWindow := ret_ANativeWindow_fromSurface p\<rparr>)) @
     [LOGI (Surface_is_prepared surface),
      ACameraOutputTarget_create (ret_ANativeWindow_fromSurface p),
      ACaptureRequest_addTarget
        (captureRequest (fst (openCamera p TEMPLATE_PREVIEW
           (s\<lparr>theNativeWindow := ret_ANativeWindow_fromSurface p\<rparr>))))
        (out_param (out_cameraOutputTarget p) (cameraOutputTarget s)),
      ACaptureSessionOutput_create (ret_ANativeWindow_fromSurface p),
      ACaptureSessionOutputContainer_create,
      ACaptureSessionOutputContainer_add
        (out_param (out_captureSessionOutputContainer p) (captureSessionOutputContainer s))
        (out_param (out_sessionOutput p) (sessionOutput s)),
      ACameraDevice_createCaptureSession
        (cameraDevice (fst (openCamera p TEMPLATE_PREVIEW
           (s\<lparr>theNativeWindow := ret_ANativeWindow_fromSurface p\<rparr>))))
        (out_param (out_captureSessionOutputContainer p) (captureSessionOutputContainer s)),
      ACameraCaptureSession_setRepeatingRequest
        (out_param (out_captureSession p) (captureSession s)) 1
        [captureRequest (fst (openCamera p TEMPLATE_PREVIEW
           (s\<lparr>theNativeWindow := ret_ANativeWindow_fromSurface p\<rparr>)))]]"
  by (simp add: Java_org_freedesktop_nativecamera2_NativeCamera2_startPreview_def split_def
      Let_def openCamera_frame)

lemma startPreview_releases: "releases (snd (startPreview p surface s)) = []"
  by (simp add: startPreview_events releases_append openCamera_releases)

section \<open>References made by a start and met by a teardown\<close>

lemma references_append: "references (t @ u) = references t @ references u"
  by (induction t) simp_all

lemma openCamera_references: "references (snd (openCamera p t s)) = []"
  by (simp add: openCamera_def Let_def)

lemma startPreview_references:
  "references (snd (startPreview p surface s)) =
     [((CaptureRequest, captureRequest (fst (startPreview p surface s))),
       (CameraOutputTarget, cameraOutputTarget (fst (startPreview p surface s)))),
      ((CaptureSessionOutputContainer,
        captureSessionOutputContainer (fst (startPreview p surface s))),
       (SessionOutput, sessionOutput (fst (startPreview p surface s))))]"
  by (simp add: startPreview_events startPreview_statics references_append
      openCamera_references)

lemma closeCamera_freed_while_referenced:
  "freed_while_referenced
     [((CaptureRequest, captureRequest s), (CameraOutputTarget, cameraOutputTarget s)),
      ((CaptureSessionOutputContainer, captureSessionOutputContainer s),
       (SessionOutput, sessionOutput s))]
     (held s) (releases (snd (closeCamera r s))) =
   (if sessionOutput s \<noteq> None \<and> captureSessionOutputContainer s \<noteq> None
    then [((CaptureSessionOutputContainer, captureSessionOutputContainer s),
           (SessionOutput, sessionOutput s))]
    else [])"
  by (cases "captureRequest s"; cases "cameraOutputTarget s"; cases "cameraDevice s";
      cases "sessionOutput s"; cases "captureSessionOutputContainer s";
      cases "theNativeWindow s"; cases "captureSession s";
      simp add: closeCamera_releases held_def all_slots_def)

section \<open>Teardown\<close>

text \<open>
  C1. The claim: after the stop entry point returns, all seven static pointers (the six
  camera handles and the display surface) are \<open>NULL\<close>, however far the preceding start
  got. On the code this fails for the capture session: after a start on which every
  platform call succeeded, the stop leaves \<open>captureSession\<close> holding the handle the
  platform stored.
\<close>

theorem stop_leaves_captureSession_set:
  "slot_value CaptureSession
     (fst (stopPreview ACAMERA_OK (fst (startPreview one_camera 7 initial)))) = Some 18"
  by (simp add: start_one_camera stopPreview_statics)

text \<open>
  C1, as amended: after the stop entry point returns, the display surface and the five
  camera pointers other than the capture session (device, capture request, output
  target, session output, output container) are \<open>NULL\<close>, from every state of the
  static variables; the capture session pointer is left as it was.
\<close>

theorem stop_empties_released_slots:
  "theNativeWindow (fst (stopPreview r s)) = None \<and>
   cameraDevice (fst (stopPreview r s)) = None \<and>
   captureRequest (fst (stopPreview r s)) = None \<and>
   cameraOutputTarget (fst (stopPreview r s)) = None \<and>
   sessionOutput (fst (stopPreview r s)) = None \<and>
   captureSessionOutputContainer (fst (stopPreview r s)) = None \<and>
   captureSession (fst (stopPreview r s)) = captureSession s"
  by (simp add: stopPreview_statics)

text \<open>
  C2. The claim: teardown releases the handles in dependency order, so that no handle is
  freed while another handle that is still held refers to it. On the code the order is
  fixed, but the conclusion fails: after a start on which every call succeeded, the
  session output is freed while the container it was added to is still held.
\<close>

theorem closeCamera_frees_session_output_before_container:
  "freed_while_referenced (references (snd (startPreview one_camera 7 initial)))
     (held (fst (startPreview one_camera 7 initial)))
     (releases (snd (closeCamera ACAMERA_OK (fst (startPreview one_camera 7 initial))))) =
   [((CaptureSessionOutputContainer, Some 17), (SessionOutput, Some 16))]"
  unfolding startPreview_references closeCamera_freed_while_referenced
  by (simp add: start_one_camera)

text \<open>
  C2, as amended: in every run of \<open>closeCamera\<close> the release calls are, in this order,
  capture request, output target, device close, session output, output container, each
  issued only when its pointer is not \<open>NULL\<close> and each receiving the handle its slot
  holds. So the capture request is freed before the output target that was added to it,
  both before the device is closed, and session output and container after it. Of the
  two references the add calls of a start create, the one from the request to its output
  target is
  never broken by the teardown that follows; the one from the container to its session
  output is broken whenever both handles exist, the session output being freed first.
\<close>

theorem closeCamera_order_and_references:
  "releases (snd (closeCamera r s)) =
     map (\<lambda>sl. (sl, slot_value sl s))
       (filter (\<lambda>sl. slot_value sl s \<noteq> None)
          [CaptureRequest, CameraOutputTarget, CameraDevice, SessionOutput,
           CaptureSessionOutputContainer]) \<and>
   freed_while_referenced (references (snd (startPreview p surface s0)))
     (held (fst (startPreview p surface s0)))
     (releases (snd (closeCamera r (fst (startPreview p surface s0))))) =
   (if sessionOutput (fst (startPreview p surface s0)) \<noteq> None \<and>
       captureSessionOutputContainer (fst (startPreview p surface s0)) \<noteq> None
    then [((CaptureSessionOutputContainer,
            captureSessionOutputContainer (fst (startPreview p surface s0))),
           (SessionOutput, sessionOutput (fst (startPreview p surface s0))))]
    else [])"
proof -
  have order: "releases (snd (closeCamera r s)) =
     map (\<lambda>sl. (sl, slot_value sl s))
       (filter (\<lambda>sl. slot_value sl s \<noteq> None)
          [CaptureRequest, CameraOutputTarget, CameraDevice, SessionOutput,
           CaptureSessionOutputContainer])"
    by (simp add: closeCamera_releases)
  show ?thesis
    unfolding startPreview_references closeCamera_freed_while_referenced
    using order by simp
qed

text \<open>
  C3. After any sequence of start and stop calls from the initial state, a stop applies a
  release call only to a pointer that is not \<open>NULL\<close>, passing the value its slot holds
  at that moment, and to each slot at most once. From the initial state (start never
  called) it issues no platform call at all and changes nothing.
\<close>

theorem stop_releases_only_held_slots:
  "(\<forall>(sl, a) \<in> set (releases (snd (stopPreview r (fst (run cs initial))))).
      a \<noteq> None \<and> slot_value sl (fst (run cs initial)) = a) \<and>
   distinct (map fst (releases (snd (stopPreview r (fst (run cs initial)))))) \<and>
   stopPreview r initial = (initial, [LOGI Close_Camera])"
proof -
  have held:
    "\<forall>(sl, a) \<in> set (releases (snd (stopPreview r s))). a \<noteq> None \<and> slot_value sl s = a"
    for s
    by (auto simp: stopPreview_releases split: if_splits)
  have once: "distinct (map fst (releases (snd (stopPreview r s))))" for s
    by (simp add: stopPreview_releases)
  have idle: "stopPreview r initial = (initial, [LOGI Close_Camera])"
    by (simp add: Java_org_freedesktop_nativecamera2_NativeCamera2_stopPreview_def
        closeCamera_def initial_def)
  show ?thesis
    using held [of "fst (run cs initial)"] once [of "fst (run cs initial)"] idle
    by (intro conjI)
qed

theorem stop_releases_only_held_slots_witness:
  "releases (snd (stopPreview ACAMERA_OK (fst (run [Start no_camera 7] initial)))) =
     [(CameraOutputTarget, Some 15), (SessionOutput, Some 16),
      (CaptureSessionOutputContainer, Some 17), (TheNativeWindow, Some 10)] \<and>
   slot_value CameraOutputTarget (fst (run [Start no_camera 7] initial)) = Some 15 \<and>
   slot_value SessionOutput (fst (run [Start no_camera 7] initial)) = Some 16 \<and>
   slot_value CaptureSessionOutputContainer (fst (run [Start no_camera 7] initial)) = Some 17 \<and>
   slot_value TheNativeWindow (fst (run [Start no_camera 7] initial)) = Some 10"
  using stop_releases_only_held_slots [of ACAMERA_OK "[Start no_camera 7]"]
  by (simp add: split_def start_no_camera stopPreview_releases)

text \<open>
  C4. The stop entry point is idempotent: every slot it releases is \<open>NULL\<close> when it
  returns, so a second stop right after the first leaves the static variables as the
  first left them and issues no release call (its whole trace is the closing log line).
\<close>

theorem stop_idempotent:
  "fst (stopPreview r2 (fst (stopPreview r1 s))) = fst (stopPreview r1 s) \<and>
   snd (stopPreview r2 (fst (stopPreview r1 s))) = [LOGI Close_Camera] \<and>
   (\<forall>(sl, a) \<in> set (releases (snd (stopPreview r1 s))).
      slot_value sl (fst (stopPreview r1 s)) = None)"
  by (auto simp: stopPreview_statics stopPreview_events closeCamera_events stopPreview_releases
      split: if_splits)

theorem stop_idempotent_witness:
  "releases (snd (stopPreview ACAMERA_OK (fst (startPreview one_camera 7 initial)))) =
     [(CaptureRequest, Some 14), (CameraOutputTarget, Some 15), (CameraDevice, Some 13),
      (SessionOutput, Some 16), (CaptureSessionOutputContainer, Some 17),
      (TheNativeWindow, Some 10)] \<and>
   slot_value CaptureRequest
     (fst (stopPreview ACAMERA_OK (fst (startPreview one_camera 7 initial)))) = None \<and>
   slot_value CameraDevice
     (fst (stopPreview ACAMERA_OK (fst (startPreview one_camera 7 initial)))) = None \<and>
   snd (stopPreview ACAMERA_OK
     (fst (stopPreview ACAMERA_OK (fst (startPreview one_camera 7 initial))))) =
     [LOGI Close_Camera]"
  using stop_idempotent [of ACAMERA_OK ACAMERA_OK "fst (startPreview one_camera 7 initial)"]
  by (simp add: start_one_camera stopPreview_releases)


section \<open>Starting\<close>

text \<open>
  C5. The claim: when the enumeration returns no camera, the start logs and returns
  without creating a device handle, and the stop that follows changes nothing and
  releases nothing. On the code the second half fails: the start still stores the
  window and the output target, session output and container the platform creates, and
  the stop releases all four.
\<close>

theorem zero_cameras_stop_releases:
  "fst (stopPreview ACAMERA_OK (fst (startPreview no_camera 7 initial))) \<noteq>
     fst (startPreview no_camera 7 initial) \<and>
   releases (snd (stopPreview ACAMERA_OK (fst (startPreview no_camera 7 initial)))) =
     [(CameraOutputTarget, Some 15), (SessionOutput, Some 16),
      (CaptureSessionOutputContainer, Some 17), (TheNativeWindow, Some 10)]"
  by (simp add: start_no_camera stopPreview_statics stopPreview_releases)

text \<open>
  C5, as amended: when the enumeration succeeds with no camera, the start logs the one
  error line, the opener makes no call after the enumeration (so none that opens a
  device), and from the initial state the device and capture request pointers stay
  \<open>NULL\<close>. The start nevertheless stores the window and whatever the platform stores
  for the output target, the session output and the container, issuing the whole session
  assembly with \<open>NULL\<close> for the request and the device. The stop that follows releases
  exactly the pointers that are not \<open>NULL\<close> among output target, session output, output
  container and display surface, each with the handle the start stored, never a device
  or a capture request, and leaves all six \<open>NULL\<close>.
\<close>

theorem zero_cameras_start_then_stop:
  assumes "ret_getCameraIdList p = ACAMERA_OK" and "numCameras (out_cameraIdList p) < 1"
  shows "errors (snd (startPreview p surface initial)) = [No_camera_device_detected] \<and>
    calls (snd (openCamera p templateId s)) =
      [ACameraManager_create, ACameraManager_getCameraIdList (ret_ACameraManager_create p)] \<and>
    cameraDevice (fst (startPreview p surface initial)) = None \<and>
    captureRequest (fst (startPreview p surface initial)) = None \<and>
    theNativeWindow (fst (startPreview p surface initial)) = ret_ANativeWindow_fromSurface p \<and>
    cameraOutputTarget (fst (startPreview p surface initial)) =
      out_param (out_cameraOutputTarget p) None \<and>
    sessionOutput (fst (startPreview p surface initial)) =
      out_param (out_sessionOutput p) None \<and>
    captureSessionOutputContainer (fst (startPreview p surface initial)) =
      out_param (out_captureSessionOutputContainer p) None \<and>
    calls (snd (startPreview p surface initial)) =
      [ANativeWindow_fromSurface surface,
       ACameraManager_create,
       ACameraManager_getCameraIdList (ret_ACameraManager_create p),
       ACameraOutputTarget_create (ret_ANativeWindow_fromSurface p),
       ACaptureRequest_addTarget None (out_param (out_cameraOutputTarget p) None),
       ACaptureSessionOutput_create (ret_ANativeWindow_fromSurface p),
       ACaptureSessionOutputContainer_create,
       ACaptureSessionOutputContainer_add
         (out_param (out_captureSessionOutputContainer p) None)
         (out_param (out_sessionOutput p) None),
       ACameraDevice_createCaptureSession None
         (out_param (out_captureSessionOutputContainer p) None),
       ACameraCaptureSession_setRepeatingRequest (out_param (out_captureSession p) None) 1
         [None]] \<and>
    releases (snd (stopPreview r (fst (startPreview p surface initial)))) =
      map (\<lambda>sl. (sl, slot_value sl (fst (startPreview p surface initial))))
        (filter (\<lambda>sl. slot_value sl (fst (startPreview p surface initial)) \<noteq> None)
           [CameraOutputTarget, SessionOutput, CaptureSessionOutputContainer,
            TheNativeWindow]) \<and>
    (\<forall>sl \<in> set [CameraOutputTarget, SessionOutput, CaptureSessionOutputContainer,
                 TheNativeWindow, CameraDevice, CaptureRequest].
       slot_value sl (fst (stopPreview r (fst (startPreview p surface initial)))) = None)"
proof -
  have opened: "openCamera p t s' =
      (s', [ACameraManager_create, ACameraManager_getCameraIdList (ret_ACameraManager_create p),
            LOGE No_camera_device_detected])" for t s'
    using assms by (rule openCamera_no_camera)
  have dev: "cameraDevice (fst (startPreview p surface initial)) = None"
    and req: "captureRequest (fst (startPreview p surface initial)) = None"
    by (simp_all add: startPreview_statics opened initial_def)
  have stored:
    "theNativeWindow (fst (startPreview p surface initial)) = ret_ANativeWindow_fromSurface p"
    "cameraOutputTarget (fst (startPreview p surface initial)) =
      out_param (out_cameraOutputTarget p) None"
    "sessionOutput (fst (startPreview p surface initial)) = out_param (out_sessionOutput p) None"
    "captureSessionOutputContainer (fst (startPreview p surface initial)) =
      out_param (out_captureSessionOutputContainer p) None"
    by (simp_all add: startPreview_statics opened initial_def)
  have logged: "errors (snd (startPreview p surface initial)) = [No_camera_device_detected]"
    by (simp add: startPreview_events opened)
  have opener: "calls (snd (openCamera p templateId s)) =
      [ACameraManager_create, ACameraManager_getCameraIdList (ret_ACameraManager_create p)]"
    by (simp add: opened calls_def)
  have assembly: "calls (snd (startPreview p surface initial)) =
      [ANativeWindow_fromSurface surface,
       ACameraManager_create,
       ACameraManager_getCameraIdList (ret_ACameraManager_create p),
       ACameraOutputTarget_create (ret_ANativeWindow_fromSurface p),
       ACaptureRequest_addTarget None (out_param (out_cameraOutputTarget p) None),
       ACaptureSessionOutput_create (ret_ANativeWindow_fromSurface p),
       ACaptureSessionOutputContainer_create,
       ACaptureSessionOutputContainer_add
         (out_param (out_captureSessionOutputContainer p) None)
         (out_param (out_sessionOutput p) None),
       ACameraDevice_createCaptureSession None
         (out_param (out_captureSessionOutputContainer p) None),
       ACameraCaptureSession_setRepeatingRequest (out_param (out_captureSession p) None) 1
         [None]]"
    by (simp add: startPreview_events opened calls_def initial_def)
  have freed: "releases (snd (stopPreview r (fst (startPreview p surface initial)))) =
      map (\<lambda>sl. (sl, slot_value sl (fst (startPreview p surface initial))))
        (filter (\<lambda>sl. slot_value sl (fst (startPreview p surface initial)) \<noteq> None)
           [CameraOutputTarget, SessionOutput, CaptureSessionOutputContainer,
            TheNativeWindow])"
    by (simp add: stopPreview_releases dev req)
  have emptied: "\<forall>sl \<in> set [CameraOutputTarget, SessionOutput, CaptureSessionOutputContainer,
                 TheNativeWindow, CameraDevice, CaptureRequest].
       slot_value sl (fst (stopPreview r (fst (startPreview p surface initial)))) = None"
    by (simp add: stopPreview_statics)
  from logged opener dev req stored assembly freed emptied show ?thesis
    by (intro conjI)
qed

theorem zero_cameras_start_then_stop_witness:
  "errors (snd (startPreview no_camera 7 initial)) = [No_camera_device_detected] \<and>
   cameraDevice (fst (startPreview no_camera 7 initial)) = None \<and>
   captureRequest (fst (startPreview no_camera 7 initial)) = None \<and>
   theNativeWindow (fst (startPreview no_camera 7 initial)) = Some 10 \<and>
   cameraOutputTarget (fst (startPreview no_camera 7 initial)) = Some 15 \<and>
   sessionOutput (fst (startPreview no_camera 7 initial)) = Some 16 \<and>
   captureSessionOutputContainer (fst (startPreview no_camera 7 initial)) = Some 17 \<and>
   calls (snd (startPreview no_camera 7 initial)) =
     [ANativeWindow_fromSurface 7, ACameraManager_create,
      ACameraManager_getCameraIdList (Some 11),
      ACameraOutputTarget_create (Some 10),
      ACaptureRequest_addTarget None (Some 15),
      ACaptureSessionOutput_create (Some 10),
      ACaptureSessionOutputContainer_create,
      ACaptureSessionOutputContainer_add (Some 17) (Some 16),
      ACameraDevice_createCaptureSession None (Some 17),
      ACameraCaptureSession_setRepeatingRequest None 1 [None]] \<and>
   releases (snd (stopPreview ACAMERA_OK (fst (startPreview no_camera 7 initial)))) =
     [(CameraOutputTarget, Some 15), (SessionOutput, Some 16),
      (CaptureSessionOutputContainer, Some 17), (TheNativeWindow, Some 10)] \<and>
   slot_value CameraOutputTarget
     (fst (stopPreview ACAMERA_OK (fst (startPreview no_camera 7 initial)))) = None"
proof -
  have a: "ret_getCameraIdList no_camera = ACAMERA_OK"
    by (simp add: no_camera_def)
  have b: "numCameras (out_cameraIdList no_camera) < 1"
    by (simp add: no_camera_def numCameras_def)
  have c: "ret_ANativeWindow_fromSurface no_camera = Some 10"
    "ret_ACameraManager_create no_camera = Some 11"
    "out_cameraOutputTarget no_camera = Stored (Some 15)"
    "out_sessionOutput no_camera = Stored (Some 16)"
    "out_captureSessionOutputContainer no_camera = Stored (Some 17)"
    "out_captureSession no_camera = Untouched"
    by (simp_all add: no_camera_def)
  show ?thesis
    using zero_cameras_start_then_stop [OF a b, of 7 TEMPLATE_PREVIEW initial ACAMERA_OK]
    by (simp add: c)
qed

text \<open>
  C6. The claim: a second start with no stop in between overwrites no slot whose handle
  has not been released. On the code it fails: after a first successful start, a second
  one on which the platform hands out fresh handles overwrites all seven slots, and none
  of the seven old handles is released.
\<close>

theorem second_start_overwrites_unreleased:
  "overwritten_unreleased (fst (startPreview one_camera 7 initial))
     (snd (startPreview one_camera_again 8 (fst (startPreview one_camera 7 initial))))
     (fst (startPreview one_camera_again 8 (fst (startPreview one_camera 7 initial)))) =
   [TheNativeWindow, CameraDevice, CaptureRequest, CameraOutputTarget, SessionOutput,
    CaptureSessionOutputContainer, CaptureSession]"
  unfolding start_one_camera
  by (simp add: overwritten_unreleased_def all_slots_def startPreview_releases
      startPreview_statics openCamera_opened_statics one_camera_again_def numCameras_def)

text \<open>
  C6, as amended: the start entry point issues no release call at all and stores the new
  window unconditionally, so every slot that held a handle and holds another value after
  the start has been overwritten with its old handle unreleased.
\<close>

theorem start_releases_nothing:
  "releases (snd (startPreview p surface s)) = [] \<and>
   theNativeWindow (fst (startPreview p surface s)) = ret_ANativeWindow_fromSurface p \<and>
   overwritten_unreleased s (snd (startPreview p surface s)) (fst (startPreview p surface s)) =
     filter (\<lambda>sl. slot_value sl s \<noteq> None \<and>
                  slot_value sl (fst (startPreview p surface s)) \<noteq> slot_value sl s) all_slots"
  by (simp add: overwritten_unreleased_def startPreview_releases startPreview_statics
      openCamera_frame)

text \<open>
  C7. Whatever fails while opening, the opener only logs: a failed enumeration or an
  empty list gives one error line and an unchanged state; after a successful enumeration
  each of the three remaining status checks adds its error line when the status is not
  \<open>ACAMERA_OK\<close>, and the same eight platform calls are issued whatever the statuses
  are, the request creation receiving the device pointer as the open call left it. The
  opener then leaves in the device and capture request slots exactly what the platform
  stored through the two out parameters (the old value where it stored nothing). No
  platform call is issued twice. The start entry point then always goes on: what follows
  the opener in its trace is the whole session assembly, applied to the pointers as the
  opener left them.
\<close>

theorem opener_logs_failures_and_start_continues:
  "(ret_getCameraIdList p \<noteq> ACAMERA_OK \<longrightarrow>
      openCamera p t s =
        (s, [ACameraManager_create,
             ACameraManager_getCameraIdList (ret_ACameraManager_create p),
             LOGE (Failed_to_get_camera_id_list (ret_getCameraIdList p))])) \<and>
   (ret_getCameraIdList p = ACAMERA_OK \<and> numCameras (out_cameraIdList p) < 1 \<longrightarrow>
      openCamera p t s =
        (s, [ACameraManager_create,
             ACameraManager_getCameraIdList (ret_ACameraManager_create p),
             LOGE No_camera_device_detected])) \<and>
   (ret_getCameraIdList p = ACAMERA_OK \<and> 1 \<le> numCameras (out_cameraIdList p) \<longrightarrow>
      fst (openCamera p t s) =
        s\<lparr>deviceStateCallbacks :=
            \<lparr>onDisconnected = Some camera_device_on_disconnected,
             onError = Some camera_device_on_error\<rparr>,
          cameraDevice := out_param (out_cameraDevice p) (cameraDevice s),
          captureRequest := out_param (out_captureRequest p) (captureRequest s)\<rparr> \<and>
      errors (snd (openCamera p t s)) =
        (if ret_getCameraCharacteristics p \<noteq> ACAMERA_OK
         then [Failed_to_get_camera_meta_data (hd (out_cameraIdList p))] else []) @
        (if ret_openCamera p \<noteq> ACAMERA_OK
         then [Failed_to_open_camera_device (hd (out_cameraIdList p))] else []) @
        (if ret_createCaptureRequest p \<noteq> ACAMERA_OK
         then [Failed_to_create_preview_capture_request (hd (out_cameraIdList p))] else []) \<and>
      calls (snd (openCamera p t s)) =
        [ACameraManager_create,
         ACameraManager_getCameraIdList (ret_ACameraManager_create p),
         ACameraManager_getCameraCharacteristics (ret_ACameraManager_create p)
           (hd (out_cameraIdList p)),
         ACameraManager_openCamera (ret_ACameraManager_create p) (hd (out_cameraIdList p)),
         ACameraDevice_createCaptureRequest
           (out_param (out_cameraDevice p) (cameraDevice s)) t,
         ACameraMetadata_free (out_param (out_cameraMetadata p) None),
         ACameraManager_deleteCameraIdList (out_cameraIdList p),
         ACameraManager_delete (ret_ACameraManager_create p)]) \<and>
   distinct (calls (snd (openCamera p t s))) \<and>
   drop (Suc (length (snd (openCamera p TEMPLATE_PREVIEW
          (s\<lparr>theNativeWindow := ret_ANativeWindow_fromSurface p\<rparr>)))))
     (snd (startPreview p surface s)) =
     [LOGI (Surface_is_prepared surface),
      ACameraOutputTarget_create (theNativeWindow (fst (startPreview p surface s))),
      ACaptureRequest_addTarget
        (captureRequest (fst (openCamera p TEMPLATE_PREVIEW
           (s\<lparr>theNativeWindow := ret_ANativeWindow_fromSurface p\<rparr>))))
        (cameraOutputTarget (fst (startPreview p surface s))),
      ACaptureSessionOutput_create (theNativeWindow (fst (startPreview p surface s))),
      ACaptureSessionOutputContainer_create,
      ACaptureSessionOutputContainer_add
        (captureSessionOutputContainer (fst (startPreview p surface s)))
        (sessionOutput (fst (startPreview p surface s))),
      ACameraDevice_createCaptureSession
        (cameraDevice (fst (openCamera p TEMPLATE_PREVIEW
           (s\<lparr>theNativeWindow := ret_ANativeWindow_fromSurface p\<rparr>))))
        (captureSessionOutputContainer (fst (startPreview p surface s))),
      ACameraCaptureSession_setRepeatingRequest
        (captureSession (fst (startPreview p surface s))) 1
        [captureRequest (fst (openCamera p TEMPLATE_PREVIEW
           (s\<lparr>theNativeWindow := ret_ANativeWindow_fromSurface p\<rparr>)))]]"
proof -
  have once: "distinct (calls (snd (openCamera p t s)))"
  proof (cases "ret_getCameraIdList p = ACAMERA_OK \<and> 1 \<le> numCameras (out_cameraIdList p)")
    case True
    then show ?thesis
      by (simp add: openCamera_opened_events calls_def)
  next
    case False
    then show ?thesis
      by (cases "ret_getCameraIdList p = ACAMERA_OK")
        (simp_all add: openCamera_enumeration_failed openCamera_no_camera calls_def)
  qed
  have opened: "fst (openCamera p t s) =
        s\<lparr>deviceStateCallbacks :=
            \<lparr>onDisconnected = Some camera_device_on_disconnected,
             onError = Some camera_device_on_error\<rparr>,
          cameraDevice := out_param (out_cameraDevice p) (cameraDevice s),
          captureRequest := out_param (out_captureRequest p) (captureRequest s)\<rparr> \<and>
      errors (snd (openCamera p t s)) =
        (if ret_getCameraCharacteristics p \<noteq> ACAMERA_OK
         then [Failed_to_get_camera_meta_data (hd (out_cameraIdList p))] else []) @
        (if ret_openCamera p \<noteq> ACAMERA_OK
         then [Failed_to_open_camera_device (hd (out_cameraIdList p))] else []) @
        (if ret_createCaptureRequest p \<noteq> ACAMERA_OK
         then [Failed_to_create_preview_capture_request (hd (out_cameraIdList p))] else []) \<and>
      calls (snd (openCamera p t s)) =
        [ACameraManager_create,
         ACameraManager_getCameraIdList (ret_ACameraManager_create p),
         ACameraManager_getCameraCharacteristics (ret_ACameraManager_create p)
           (hd (out_cameraIdList p)),
         ACameraManager_openCamera (ret_ACameraManager_create p) (hd (out_cameraIdList p)),
         ACameraDevice_createCaptureRequest
           (out_param (out_cameraDevice p) (cameraDevice s)) t,
         ACameraMetadata_free (out_param (out_cameraMetadata p) None),
         ACameraManager_deleteCameraIdList (out_cameraIdList p),
         ACameraManager_delete (ret_ACameraManager_create p)]"
    if "ret_getCameraIdList p = ACAMERA_OK" "1 \<le> numCameras (out_cameraIdList p)"
    using that
    by (simp add: openCamera_opened_events openCamera_opened_statics calls_def)
  have continues: "drop (Suc (length (snd (openCamera p TEMPLATE_PREVIEW
          (s\<lparr>theNativeWindow := ret_ANativeWindow_fromSurface p\<rparr>)))))
     (snd (startPreview p surface s)) =
     [LOGI (Surface_is_prepared surface),
      ACameraOutputTarget_create (theNativeWindow (fst (startPreview p surface s))),
      ACaptureRequest_addTarget
        (captureRequest (fst (openCamera p TEMPLATE_PREVIEW
           (s\<lparr>theNativeWindow := ret_ANativeWindow_fromSurface p\<rparr>))))
        (cameraOutputTarget (fst (startPreview p surface s))),
      ACaptureSessionOutput_create (theNativeWindow (fst (startPreview p surface s))),
      ACaptureSessionOutputContainer_create,
      ACaptureSessionOutputContainer_add
        (captureSessionOutputContainer (fst (startPreview p surface s)))
        (sessionOutput (fst (startPreview p surface s))),
      ACameraDevice_createCaptureSession
        (cameraDevice (fst (openCamera p TEMPLATE_PREVIEW
           (s\<lparr>theNativeWindow := ret_ANativeWindow_fromSurface p\<rparr>))))
        (captureSessionOutputContainer (fst (startPreview p surface s))),
      ACameraCaptureSession_setRepeatingRequest
        (captureSession (fst (startPreview p surface s))) 1
        [captureRequest (fst (openCamera p TEMPLATE_PREVIEW
           (s\<lparr>theNativeWindow := ret_ANativeWindow_fromSurface p\<rparr>)))]]"
    by (simp add: startPreview_events startPreview_statics openCamera_frame)
  show ?thesis
    using once opened continues openCamera_enumeration_failed [of p t s]
      openCamera_no_camera [of p t s]
    by (intro conjI impI) simp_all
qed

theorem opener_logs_failures_and_start_continues_witness:
  "openCamera enumeration_fails TEMPLATE_PREVIEW initial =
     (initial, [ACameraManager_create, ACameraManager_getCameraIdList (Some 11),
                LOGE (Failed_to_get_camera_id_list (- 10006))]) \<and>
   openCamera no_camera TEMPLATE_PREVIEW initial =
     (initial, [ACameraManager_create, ACameraManager_getCameraIdList (Some 11),
                LOGE No_camera_device_detected]) \<and>
   errors (snd (openCamera request_fails TEMPLATE_PREVIEW initial)) =
     [Failed_to_get_camera_meta_data ''0'', Failed_to_create_preview_capture_request ''0''] \<and>
   calls (snd (openCamera request_fails TEMPLATE_PREVIEW initial)) =
     [ACameraManager_create, ACameraManager_getCameraIdList (Some 11),
      ACameraManager_getCameraCharacteristics (Some 11) ''0'',
      ACameraManager_openCamera (Some 11) ''0'',
      ACameraDevice_createCaptureRequest (Some 13) TEMPLATE_PREVIEW,
      ACameraMetadata_free None,
      ACameraManager_deleteCameraIdList [''0''],
      ACameraManager_delete (Some 11)] \<and>
   cameraDevice (fst (openCamera request_fails TEMPLATE_PREVIEW initial)) = Some 13 \<and>
   captureRequest (fst (openCamera request_fails TEMPLATE_PREVIEW initial)) = None \<and>
   drop 12 (snd (startPreview request_fails 7 initial)) =
     [LOGI (Surface_is_prepared 7),
      ACameraOutputTarget_create (Some 10),
      ACaptureRequest_addTarget None (Some 15),
      ACaptureSessionOutput_create (Some 10),
      ACaptureSessionOutputContainer_create,
      ACaptureSessionOutputContainer_add (Some 17) (Some 16),
      ACameraDevice_createCaptureSession (Some 13) (Some 17),
      ACameraCaptureSession_setRepeatingRequest (Some 18) 1 [None]]"
proof -
  have a: "ret_getCameraIdList enumeration_fails \<noteq> ACAMERA_OK"
    by (simp add: enumeration_fails_def ACAMERA_OK_def)
  have b: "ret_getCameraIdList no_camera = ACAMERA_OK \<and>
      numCameras (out_cameraIdList no_camera) < 1"
    by (simp add: no_camera_def numCameras_def)
  have c: "ret_getCameraIdList request_fails = ACAMERA_OK \<and>
      1 \<le> numCameras (out_cameraIdList request_fails)"
    by (simp add: request_fails_def numCameras_def)
  have failed: "openCamera enumeration_fails TEMPLATE_PREVIEW initial =
     (initial, [ACameraManager_create, ACameraManager_getCameraIdList (Some 11),
                LOGE (Failed_to_get_camera_id_list (- 10006))])"
    using a opener_logs_failures_and_start_continues
      [of enumeration_fails TEMPLATE_PREVIEW initial 7]
    by (simp add: enumeration_fails_def)
  have empty: "openCamera no_camera TEMPLATE_PREVIEW initial =
     (initial, [ACameraManager_create, ACameraManager_getCameraIdList (Some 11),
                LOGE No_camera_device_detected])"
    using b opener_logs_failures_and_start_continues [of no_camera TEMPLATE_PREVIEW initial 7]
    by (simp add: no_camera_def)
  have opener: "fst (openCamera request_fails TEMPLATE_PREVIEW initial) =
        initial\<lparr>deviceStateCallbacks :=
            \<lparr>onDisconnected = Some camera_device_on_disconnected,
             onError = Some camera_device_on_error\<rparr>,
          cameraDevice := Some 13, captureRequest := None\<rparr> \<and>
      errors (snd (openCamera request_fails TEMPLATE_PREVIEW initial)) =
        [Failed_to_get_camera_meta_data ''0'',
         Failed_to_create_preview_capture_request ''0''] \<and>
      calls (snd (openCamera request_fails TEMPLATE_PREVIEW initial)) =
        [ACameraManager_create, ACameraManager_getCameraIdList (Some 11),
         ACameraManager_getCameraCharacteristics (Some 11) ''0'',
         ACameraManager_openCamera (Some 11) ''0'',
         ACameraDevice_createCaptureRequest (Some 13) TEMPLATE_PREVIEW,
         ACameraMetadata_free None,
         ACameraManager_deleteCameraIdList [''0''],
         ACameraManager_delete (Some 11)]"
    using c opener_logs_failures_and_start_continues
      [of request_fails TEMPLATE_PREVIEW initial 7]
    by (simp add: request_fails_def ACAMERA_OK_def initial_def)
  have len: "Suc (length (snd (openCamera request_fails TEMPLATE_PREVIEW
      (initial\<lparr>theNativeWindow := ret_ANativeWindow_fromSurface request_fails\<rparr>)))) = 12"
    by (simp add: openCamera_def Let_def request_fails_def numCameras_def ACAMERA_OK_def)
  have left: "captureRequest (fst (openCamera request_fails TEMPLATE_PREVIEW
      (initial\<lparr>theNativeWindow := ret_ANativeWindow_fromSurface request_fails\<rparr>))) = None"
    "cameraDevice (fst (openCamera request_fails TEMPLATE_PREVIEW
      (initial\<lparr>theNativeWindow := ret_ANativeWindow_fromSurface request_fails\<rparr>))) = Some 13"
    by (simp_all add: openCamera_def Let_def request_fails_def numCameras_def ACAMERA_OK_def
        initial_def)
  have after: "theNativeWindow (fst (startPreview request_fails 7 initial)) = Some 10"
    "cameraOutputTarget (fst (startPreview request_fails 7 initial)) = Some 15"
    "sessionOutput (fst (startPreview request_fails 7 initial)) = Some 16"
    "captureSessionOutputContainer (fst (startPreview request_fails 7 initial)) = Some 17"
    "captureSession (fst (startPreview request_fails 7 initial)) = Some 18"
    by (simp_all add: startPreview_statics openCamera_frame request_fails_def)
  have used: "drop 12 (snd (startPreview request_fails 7 initial)) =
     [LOGI (Surface_is_prepared 7),
      ACameraOutputTarget_create (Some 10),
      ACaptureRequest_addTarget None (Some 15),
      ACaptureSessionOutput_create (Some 10),
      ACaptureSessionOutputContainer_create,
      ACaptureSessionOutputContainer_add (Some 17) (Some 16),
      ACameraDevice_createCaptureSession (Some 13) (Some 17),
      ACameraCaptureSession_setRepeatingRequest (Some 18) 1 [None]]"
    using opener_logs_failures_and_start_continues
      [of request_fails TEMPLATE_PREVIEW initial 7, THEN conjunct2, THEN conjunct2,
       THEN conjunct2, THEN conjunct2]
    by (simp add: len left after)
  from failed empty opener used show ?thesis by simp
qed



text \<open>
  C10. The start entry point stores the window unconditionally, and it passes the capture
  request and device pointers to \<open>ACaptureRequest_addTarget\<close> and
  \<open>ACameraDevice_createCaptureSession\<close> exactly as the opener left them, with no check.
  When the enumeration failed or found no camera and the two pointers were \<open>NULL\<close>
  before, both calls receive \<open>NULL\<close>. In the opener, after a successful enumeration,
  \<open>ACameraDevice_createCaptureRequest\<close> is called on the device pointer also when the
  open call returned an error status.
\<close>

theorem start_uses_pointers_unguarded:
  "theNativeWindow (fst (startPreview p surface s)) = ret_ANativeWindow_fromSurface p \<and>
   ACaptureRequest_addTarget
     (captureRequest (fst (openCamera p TEMPLATE_PREVIEW
        (s\<lparr>theNativeWindow := ret_ANativeWindow_fromSurface p\<rparr>))))
     (cameraOutputTarget (fst (startPreview p surface s)))
     \<in> set (snd (startPreview p surface s)) \<and>
   ACameraDevice_createCaptureSession
     (cameraDevice (fst (openCamera p TEMPLATE_PREVIEW
        (s\<lparr>theNativeWindow := ret_ANativeWindow_fromSurface p\<rparr>))))
     (captureSessionOutputContainer (fst (startPreview p surface s)))
     \<in> set (snd (startPreview p surface s)) \<and>
   ((ret_getCameraIdList p \<noteq> ACAMERA_OK \<or> numCameras (out_cameraIdList p) < 1) \<and>
    captureRequest s = None \<and> cameraDevice s = None \<longrightarrow>
      ACaptureRequest_addTarget None (cameraOutputTarget (fst (startPreview p surface s)))
        \<in> set (snd (startPreview p surface s)) \<and>
      ACameraDevice_createCaptureSession None
        (captureSessionOutputContainer (fst (startPreview p surface s)))
        \<in> set (snd (startPreview p surface s))) \<and>
   (ret_getCameraIdList p = ACAMERA_OK \<and> 1 \<le> numCameras (out_cameraIdList p) \<and>
    ret_openCamera p \<noteq> ACAMERA_OK \<longrightarrow>
      ACameraDevice_createCaptureRequest (out_param (out_cameraDevice p) (cameraDevice s)) t
        \<in> set (snd (openCamera p t s)))"
proof -
  have window: "theNativeWindow (fst (startPreview p surface s)) =
      ret_ANativeWindow_fromSurface p"
    by (simp add: startPreview_statics openCamera_frame)
  have target: "ACaptureRequest_addTarget
     (captureRequest (fst (openCamera p TEMPLATE_PREVIEW
        (s\<lparr>theNativeWindow := ret_ANativeWindow_fromSurface p\<rparr>))))
     (cameraOutputTarget (fst (startPreview p surface s)))
     \<in> set (snd (startPreview p surface s))"
    by (simp add: startPreview_events startPreview_statics)
  have session: "ACameraDevice_createCaptureSession
     (cameraDevice (fst (openCamera p TEMPLATE_PREVIEW
        (s\<lparr>theNativeWindow := ret_ANativeWindow_fromSurface p\<rparr>))))
     (captureSessionOutputContainer (fst (startPreview p surface s)))
     \<in> set (snd (startPreview p surface s))"
    by (simp add: startPreview_events startPreview_statics)
  have unopened: "openCamera p TEMPLATE_PREVIEW s' = (s', snd (openCamera p TEMPLATE_PREVIEW s'))"
    if "ret_getCameraIdList p \<noteq> ACAMERA_OK \<or> numCameras (out_cameraIdList p) < 1" for s'
    using that
    by (cases "ret_getCameraIdList p = ACAMERA_OK")
      (simp_all add: openCamera_enumeration_failed openCamera_no_camera)
  have nulls: "ACaptureRequest_addTarget None (cameraOutputTarget (fst (startPreview p surface s)))
        \<in> set (snd (startPreview p surface s)) \<and>
      ACameraDevice_createCaptureSession None
        (captureSessionOutputContainer (fst (startPreview p surface s)))
        \<in> set (snd (startPreview p surface s))"
    if "ret_getCameraIdList p \<noteq> ACAMERA_OK \<or> numCameras (out_cameraIdList p) < 1"
      and "captureRequest s = None" and "cameraDevice s = None"
  proof -
    have "fst (openCamera p TEMPLATE_PREVIEW
        (s\<lparr>theNativeWindow := ret_ANativeWindow_fromSurface p\<rparr>)) =
        s\<lparr>theNativeWindow := ret_ANativeWindow_fromSurface p\<rparr>"
      using unopened [OF that(1), of "s\<lparr>theNativeWindow := ret_ANativeWindow_fromSurface p\<rparr>"]
      by (metis fst_conv)
    with target session that(2,3) show ?thesis by simp
  qed
  have request: "ACameraDevice_createCaptureRequest
        (out_param (out_cameraDevice p) (cameraDevice s)) t \<in> set (snd (openCamera p t s))"
    if "ret_getCameraIdList p = ACAMERA_OK" and "1 \<le> numCameras (out_cameraIdList p)"
    using that by (simp add: openCamera_opened_events)
  from window target session nulls request show ?thesis
    by (intro conjI impI) simp_all
qed

theorem start_uses_pointers_unguarded_witness:
  "ACaptureRequest_addTarget None (Some 15) \<in> set (snd (startPreview no_camera 7 initial)) \<and>
   ACameraDevice_createCaptureSession None (Some 17)
     \<in> set (snd (startPreview no_camera 7 initial)) \<and>
   ret_openCamera open_fails \<noteq> ACAMERA_OK \<and>
   ACameraDevice_createCaptureRequest None TEMPLATE_PREVIEW
     \<in> set (snd (openCamera open_fails TEMPLATE_PREVIEW initial))"
proof -
  have a: "(ret_getCameraIdList no_camera \<noteq> ACAMERA_OK \<or>
      numCameras (out_cameraIdList no_camera) < 1) \<and>
      captureRequest initial = None \<and> cameraDevice initial = None"
    by (simp add: no_camera_def numCameras_def initial_def)
  have b: "ret_getCameraIdList open_fails = ACAMERA_OK \<and>
      1 \<le> numCameras (out_cameraIdList open_fails) \<and>
      ret_openCamera open_fails \<noteq> ACAMERA_OK"
    by (simp add: open_fails_def numCameras_def ACAMERA_OK_def)
  have c: "out_param (out_cameraDevice open_fails) (cameraDevice initial) = None"
    by (simp add: open_fails_def initial_def)
  from a have "ACaptureRequest_addTarget None (Some 15)
        \<in> set (snd (startPreview no_camera 7 initial)) \<and>
      ACameraDevice_createCaptureSession None (Some 17)
        \<in> set (snd (startPreview no_camera 7 initial))"
    using start_uses_pointers_unguarded [of no_camera 7 initial TEMPLATE_PREVIEW]
    by (simp add: start_no_camera)
  moreover from b c have "ACameraDevice_createCaptureRequest None TEMPLATE_PREVIEW
     \<in> set (snd (openCamera open_fails TEMPLATE_PREVIEW initial))"
    using start_uses_pointers_unguarded [of open_fails 7 initial TEMPLATE_PREVIEW]
    by simp
  ultimately show ?thesis using b by simp
qed

section \<open>The capture session slot\<close>

text \<open>
  C9. Neither \<open>closeCamera\<close> nor the stop entry point changes \<open>captureSession\<close>, and the
  release calls of a stop are those of the other six slots, each only when its pointer is
  not \<open>NULL\<close>: none of them is applied to the capture session. The opener does not
  change \<open>captureSession\<close> either, and the start entry point releases nothing and
  changes it only through the out parameter of the session creation.
\<close>

theorem stop_keeps_captureSession:
  "captureSession (fst (stopPreview r s)) = captureSession s \<and>
   captureSession (fst (closeCamera r s)) = captureSession s \<and>
   map fst (releases (snd (stopPreview r s))) =
     filter (\<lambda>sl. slot_value sl s \<noteq> None)
       [CaptureRequest, CameraOutputTarget, CameraDevice, SessionOutput,
        CaptureSessionOutputContainer, TheNativeWindow] \<and>
   captureSession (fst (openCamera p t s)) = captureSession s \<and>
   captureSession (fst (startPreview p surface s)) =
     out_param (out_captureSession p) (captureSession s) \<and>
   releases (snd (startPreview p surface s)) = []"
  by (simp add: stopPreview_statics closeCamera_statics stopPreview_releases openCamera_frame
      startPreview_statics startPreview_releases)

end
